theory Spec2Isabelle
  imports Complex_Main
begin

section \<open>Job store (utils/db\_helper.py)\<close>

text \<open>
  The table \<open>print_jobs\<close> of \<open>init_database\<close>, one record field per column.
  \<open>id INTEGER PRIMARY KEY AUTOINCREMENT\<close> is \<open>id_col\<close> (the name \<open>id\<close> is the
  identity function of HOL). \<open>job_id TEXT\<close>, \<open>completed_at\<close> and \<open>error_message\<close>
  are nullable, so they are options. Timestamps are counts of microseconds on the
  clock that wrote them; \<open>file_size_mb\<close> is kept as an exact rational and is only ever
  copied.
\<close>

record print_job =
  id_col :: nat
  job_id :: "string option"
  filename :: string
  original_filename :: string
  filepath :: string
  file_size_mb :: rat
  copies :: int
  duplex :: bool
  status :: string
  submitted_at :: int
  completed_at :: "int option"
  error_message :: "string option"

text \<open>
  The database file: the rows of the table in rowid order, and the counter SQLite keeps
  in \<open>sqlite_sequence\<close> for an AUTOINCREMENT key (the largest rowid ever handed out).
\<close>

record database =
  print_jobs :: "print_job list"
  sqlite_sequence :: nat

text \<open>
  The three SQL statement forms the helper uses, on the row list: \<open>UPDATE .. WHERE\<close>
  rewrites the matching rows in place, \<open>DELETE .. WHERE\<close> drops the matching rows and
  reports how many (\<open>cursor.rowcount\<close>), \<open>SELECT .. WHERE\<close> with \<open>fetchone\<close>
  gives the first matching row.
\<close>

definition sql_update_where ::
  "(print_job \<Rightarrow> bool) \<Rightarrow> (print_job \<Rightarrow> print_job) \<Rightarrow> print_job list \<Rightarrow> print_job list" where
  "sql_update_where cond upd rows = map (\<lambda>r. if cond r then upd r else r) rows"


definition sql_fetchone_where ::
  "(print_job \<Rightarrow> bool) \<Rightarrow> print_job list \<Rightarrow> print_job option" where
  "sql_fetchone_where cond rows = find cond rows"

text \<open>
  \<open>add_print_job\<close>: one INSERT. The new rowid is one more than the larger of the
  largest rowid in the table and the \<open>sqlite_sequence\<close> counter; \<open>status\<close> is the
  literal \<open>'pending'\<close>, \<open>submitted_at\<close> takes the column default
  \<open>CURRENT_TIMESTAMP\<close> (the argument \<open>now\<close>), the two remaining columns are NULL.
  Returns \<open>cursor.lastrowid\<close> and the new database.
\<close>

definition add_print_job ::
  "int \<Rightarrow> string \<Rightarrow> string \<Rightarrow> string \<Rightarrow> string \<Rightarrow> rat \<Rightarrow> int \<Rightarrow> bool \<Rightarrow> database
     \<Rightarrow> nat \<times> database" where
  "add_print_job now jid fname oname fpath size_mb ncopies dup db =
     (let lastrowid = Suc (fold max (map id_col (print_jobs db)) (sqlite_sequence db));
          row = \<lparr> id_col = lastrowid, job_id = Some jid, filename = fname,
                  original_filename = oname, filepath = fpath, file_size_mb = size_mb,
                  copies = ncopies, duplex = dup, status = ''pending'',
                  submitted_at = now, completed_at = None, error_message = None \<rparr>
      in (lastrowid, db\<lparr> print_jobs := print_jobs db @ [row], sqlite_sequence := lastrowid \<rparr>))"

text \<open>
  \<open>update_job_status\<close>: the \<open>completed\<close> branch sets \<open>status\<close> and
  \<open>completed_at = CURRENT_TIMESTAMP\<close>; the other branch sets \<open>status\<close> and
  \<open>error_message\<close>. Both have \<open>WHERE job_id = ?\<close>, which a NULL \<open>job_id\<close> never
  satisfies.
\<close>

definition update_job_status ::
  "int \<Rightarrow> string \<Rightarrow> string \<Rightarrow> string option \<Rightarrow> database \<Rightarrow> database" where
  "update_job_status now jid new_status err db =
     (if new_status = ''completed''
      then db\<lparr> print_jobs :=
             sql_update_where (\<lambda>r. job_id r = Some jid)
               (\<lambda>r. r\<lparr> status := new_status, completed_at := Some now \<rparr>) (print_jobs db) \<rparr>
      else db\<lparr> print_jobs :=
             sql_update_where (\<lambda>r. job_id r = Some jid)
               (\<lambda>r. r\<lparr> status := new_status, error_message := err \<rparr>) (print_jobs db) \<rparr>)"

text \<open>\<open>get_job_by_id\<close>: \<open>SELECT * .. WHERE job_id = ?\<close> and \<open>fetchone\<close>.\<close>

definition get_job_by_id :: "string \<Rightarrow> database \<Rightarrow> print_job option" where
  "get_job_by_id jid db = sql_fetchone_where (\<lambda>r. job_id r = Some jid) (print_jobs db)"



section \<open>Python text operations used by the helpers\<close>

text \<open>
  Text is a list of 8-bit characters (process output and file names in ASCII).
  \<open>py_isspace\<close> is \<open>str.isspace\<close> on one ASCII character (tab to carriage return,
  the four separators FS to US, and space); it is also the class \<open>\s\<close> of \<open>re\<close>,
  whose complement is \<open>\S\<close>. \<open>py_isdigit\<close> is the class \<open>\d\<close> on ASCII.
\<close>

definition py_isspace :: "char \<Rightarrow> bool" where
  "py_isspace c = (let n = (of_char c :: nat) in (9 \<le> n \<and> n \<le> 13) \<or> (28 \<le> n \<and> n \<le> 32))"

definition py_isdigit :: "char \<Rightarrow> bool" where
  "py_isdigit c = (let n = (of_char c :: nat) in 48 \<le> n \<and> n \<le> 57)"

text \<open>\<open>s.strip()\<close>: whitespace removed at both ends.\<close>

definition py_strip :: "string \<Rightarrow> string" where
  "py_strip s = rev (dropWhile py_isspace (rev (dropWhile py_isspace s)))"

text \<open>
  \<open>s.split('\n')\<close>: cut at every line feed, empty pieces kept (so the result is never
  the empty list).
\<close>

fun split_newline :: "string \<Rightarrow> string list" where
  "split_newline [] = [[]]"
| "split_newline (c # cs) =
     (if c = CHR 0x0A then [] # split_newline cs
      else (case split_newline cs of
              line # ls \<Rightarrow> (c # line) # ls
            | [] \<Rightarrow> [[c]]))"

text \<open>\<open>s.split()\<close>: the maximal runs of non-whitespace characters, in order.\<close>

function py_split :: "string \<Rightarrow> string list" where
  "py_split s =
     (let s' = dropWhile py_isspace s
      in if s' = [] then []
         else takeWhile (\<lambda>c. \<not> py_isspace c) s' # py_split (dropWhile (\<lambda>c. \<not> py_isspace c) s'))"
  by pat_completeness auto
termination
proof (relation "measure length")
  show "wf (measure length)" by simp
next
  fix s s' :: string
  assume a: "s' = dropWhile py_isspace s" "s' \<noteq> []"
  then have "\<not> py_isspace (hd s')" using hd_dropWhile by metis
  then have "length (dropWhile (\<lambda>c. \<not> py_isspace c) s') < length s'"
    using a(2) by (cases s') (simp_all add: le_imp_less_Suc length_dropWhile_le)
  moreover have "length s' \<le> length s" using a(1) by (simp add: length_dropWhile_le)
  ultimately show "(dropWhile (\<lambda>c. \<not> py_isspace c) s', s) \<in> measure length" by simp
qed

declare py_split.simps [simp del]

text \<open>\<open>str(n)\<close> for an integer: decimal digits, most significant first, \<open>-\<close> for a negative.\<close>

definition digit_char :: "nat \<Rightarrow> char" where
  "digit_char d = ''0123456789'' ! d"

function str_nat :: "nat \<Rightarrow> string" where
  "str_nat n = (if n < 10 then [digit_char n] else str_nat (n div 10) @ [digit_char (n mod 10)])"
  by pat_completeness auto
termination by (relation "measure id") auto

declare str_nat.simps [simp del]

definition str_int :: "int \<Rightarrow> string" where
  "str_int i = (if i < 0 then CHR ''-'' # str_nat (nat (- i)) else str_nat (nat i))"

text \<open>
  \<open>s.lower()\<close> on ASCII letters, and \<open>s.rsplit('.', 1)[1]\<close>, the text after the last
  dot, which the callers take only when \<open>'.' in s\<close>.
\<close>

definition lower_char :: "char \<Rightarrow> char" where
  "lower_char c =
     (case map_of (zip ''ABCDEFGHIJKLMNOPQRSTUVWXYZ'' ''abcdefghijklmnopqrstuvwxyz'') c of
        Some l \<Rightarrow> l
      | None \<Rightarrow> c)"

definition py_lower :: "string \<Rightarrow> string" where
  "py_lower s = map lower_char s"

definition rsplit_dot_last :: "string \<Rightarrow> string" where
  "rsplit_dot_last s = rev (takeWhile (\<lambda>c. c \<noteq> CHR ''.'') (rev s))"

section \<open>Print spooler adapter (utils/cups\_helper.py)\<close>

text \<open>
  What \<open>subprocess.run(cmd, capture_output=True, text=True, timeout=..)\<close> can do: return
  a completed process (\<open>returncode\<close>, \<open>stdout\<close>, \<open>stderr\<close>), raise
  \<open>TimeoutExpired\<close>, raise \<open>FileNotFoundError\<close>, or raise some other exception \<open>e\<close>,
  carried as \<open>str(e)\<close>.
\<close>

datatype run_result =
    Completed int string string
  | TimeoutExpired
  | FileNotFoundError
  | OtherException string

text \<open>
  The list \<open>cmd\<close> that \<open>submit_print_job\<close> builds: \<open>['lp']\<close>, extended by
  \<open>['-n', str(copies)]\<close> when \<open>copies > 1\<close>, extended by the sides option of the
  \<open>duplex\<close> branch or of the \<open>else\<close> branch, and the file path appended.
\<close>

definition lp_command :: "string \<Rightarrow> int \<Rightarrow> bool \<Rightarrow> string list" where
  "lp_command fpath ncopies dup =
     (let cmd = [''lp''];
          cmd = (if ncopies > 1 then cmd @ [''-n'', str_int ncopies] else cmd);
          cmd = (if dup then cmd @ [''-o'', ''sides=two-sided-long-edge'']
                 else cmd @ [''-o'', ''sides=one-sided''])
      in cmd @ [fpath])"

text \<open>
  \<open>re.search(r'request id is \S+-(\d+)', stdout)\<close> and its group 1.
  \<open>search_request_id\<close> tries the start positions from the left, as \<open>re.search\<close>
  does. \<open>match_request_id\<close> is the match at one position: the literal text (14
  characters), then \<open>\S+\<close>, which can only lie inside the run of non-whitespace
  characters that follows; \<open>-\<close> and the first digit lie in the same run. \<open>\S+\<close> is
  greedy and gives characters back one at a time, so the match found is the one with the
  longest \<open>\S+\<close>: \<open>last_dash_digits\<close>, on the run without its first character (which
  \<open>\S+\<close> must take), finds the last \<open>-\<close> followed by a digit and returns the digits
  after it, all of them since \<open>\d+\<close> is greedy too.
\<close>

fun last_dash_digits :: "string \<Rightarrow> string option" where
  "last_dash_digits [] = None"
| "last_dash_digits (c # cs) =
     (case last_dash_digits cs of
        Some g \<Rightarrow> Some g
      | None \<Rightarrow> if c = CHR ''-'' \<and> cs \<noteq> [] \<and> py_isdigit (hd cs)
                then Some (takeWhile py_isdigit cs) else None)"

definition match_request_id :: "string \<Rightarrow> string option" where
  "match_request_id s =
     (if take 14 s = ''request id is ''
      then (case takeWhile (\<lambda>c. \<not> py_isspace c) (drop 14 s) of
              [] \<Rightarrow> None
            | c # cs \<Rightarrow> last_dash_digits cs)
      else None)"

fun search_request_id :: "string \<Rightarrow> string option" where
  "search_request_id [] = None"
| "search_request_id (c # cs) =
     (case match_request_id (c # cs) of
        Some g \<Rightarrow> Some g
      | None \<Rightarrow> search_request_id cs)"


text \<open>
  The body of \<open>submit_print_job\<close> after the call, as a function of what
  \<open>subprocess.run\<close> did: the \<open>returncode == 0\<close> branch with the search and its
  fallback to \<open>stdout.strip()\<close>, the failure branch
  \<open>stderr.strip() or 'Unknown error submitting print job'\<close>, and the three
  \<open>except\<close> clauses.
\<close>

definition submit_result :: "run_result \<Rightarrow> bool \<times> string" where
  "submit_result res =
     (case res of
        Completed returncode out err \<Rightarrow>
          if returncode = 0
          then (case search_request_id out of
                  Some g \<Rightarrow> (True, g)
                | None \<Rightarrow> (True, py_strip out))
          else (False, if py_strip err \<noteq> [] then py_strip err
                       else ''Unknown error submitting print job'')
      | TimeoutExpired \<Rightarrow> (False, ''Print command timed out'')
      | FileNotFoundError \<Rightarrow> (False, ''CUPS lp command not found. Is CUPS installed?'')
      | OtherException e \<Rightarrow> (False, ''Error submitting print job: '' @ e))"

text \<open>
  The body of \<open>cancel_print_job\<close> after the call \<open>['cancel', job_id]\<close>.
\<close>

definition cancel_result :: "string \<Rightarrow> run_result \<Rightarrow> bool \<times> string" where
  "cancel_result jid res =
     (case res of
        Completed returncode out err \<Rightarrow>
          if returncode = 0
          then (True, ''Job '' @ jid @ '' cancelled successfully'')
          else (False, if py_strip err \<noteq> [] then py_strip err else ''Failed to cancel job'')
      | TimeoutExpired \<Rightarrow> (False, ''Cancel command timed out'')
      | FileNotFoundError \<Rightarrow> (False, ''CUPS cancel command not found'')
      | OtherException e \<Rightarrow> (False, ''Error cancelling job: '' @ e))"

text \<open>
  \<open>re.search(r'-(\d+)$', parts[0])\<close> and its group 1: the first \<open>-\<close> after which
  there are only digits, at least one, up to the end of the text (\<open>$\<close> also matches
  before a line feed that ends the text).
\<close>

fun search_job_suffix :: "string \<Rightarrow> string option" where
  "search_job_suffix [] = None"
| "search_job_suffix (c # cs) =
     (if c = CHR ''-'' \<and> takeWhile py_isdigit cs \<noteq> []
         \<and> (dropWhile py_isdigit cs = [] \<or> dropWhile py_isdigit cs = [CHR 0x0A])
      then Some (takeWhile py_isdigit cs)
      else search_job_suffix cs)"

text \<open>
  One dictionary of the list \<open>get_print_queue\<close> returns, and the loop over the lines
  of \<open>lpstat -o\<close>, with \<open>jobs\<close> the list built so far.
\<close>

record queue_entry =
  entry_job_id :: string
  entry_user :: string
  entry_size :: string
  entry_status :: string
  entry_full_id :: string

definition queue_entry_of_parts :: "string list \<Rightarrow> queue_entry" where
  "queue_entry_of_parts parts =
     (let job_match = search_job_suffix (parts ! 0);
          jid = (case job_match of Some g \<Rightarrow> g | None \<Rightarrow> parts ! 0)
      in \<lparr> entry_job_id = jid, entry_user = parts ! 1, entry_size = parts ! 2,
           entry_status = ''pending'', entry_full_id = parts ! 0 \<rparr>)"

fun parse_queue_lines :: "string list \<Rightarrow> queue_entry list \<Rightarrow> queue_entry list" where
  "parse_queue_lines [] jobs = jobs"
| "parse_queue_lines (line # ls) jobs =
     (let parts = py_split line
      in if length parts \<ge> 5
         then parse_queue_lines ls (jobs @ [queue_entry_of_parts parts])
         else parse_queue_lines ls jobs)"

definition queue_of_result :: "run_result \<Rightarrow> queue_entry list" where
  "queue_of_result res =
     (case res of
        Completed returncode out err \<Rightarrow>
          if returncode = 0 \<and> py_strip out \<noteq> []
          then parse_queue_lines (split_newline (py_strip out)) []
          else []
      | TimeoutExpired \<Rightarrow> []
      | FileNotFoundError \<Rightarrow> []
      | OtherException e \<Rightarrow> [])"

section \<open>The world the request handlers run in\<close>

text \<open>
  Everything outside the process that the handlers read or change: the database, the
  files on disk (path to content), the commands given to \<open>subprocess.run\<close> so far, and
  how often a clock has been read.
\<close>

record world =
  store :: database
  disk :: "string \<Rightarrow> string option"
  spooler_calls :: "string list list"
  clock_reads :: nat

text \<open>
  What is not code of this repository is a parameter: the answer of the operating system
  to a command (it may depend on the commands before it), the media type libmagic gives
  for a file content (\<open>None\<close> when \<open>from_file\<close> raises), werkzeug's
  \<open>secure_filename\<close>, the two clocks (\<open>CURRENT_TIMESTAMP\<close> of SQLite and
  \<open>datetime.now().strftime('%Y%m%d_%H%M%S')\<close>) at their n-th reading,
  \<open>Config.UPLOAD_FOLDER\<close>, and the text of \<open>", ".join(ALLOWED_EXTENSIONS)\<close>, whose
  order is the iteration order of a Python set.
\<close>

record environment =
  subprocess_run :: "string list list \<Rightarrow> string list \<Rightarrow> run_result"
  magic_from_file :: "string \<Rightarrow> string option"
  secure_filename :: "string \<Rightarrow> string"
  current_timestamp :: "nat \<Rightarrow> int"
  strftime_now :: "nat \<Rightarrow> string"
  upload_folder :: string
  allowed_listing :: string

definition run_command :: "environment \<Rightarrow> string list \<Rightarrow> world \<Rightarrow> run_result \<times> world" where
  "run_command env cmd w =
     (subprocess_run env (spooler_calls w) cmd, w\<lparr> spooler_calls := spooler_calls w @ [cmd] \<rparr>)"

definition sql_current_timestamp :: "environment \<Rightarrow> world \<Rightarrow> int \<times> world" where
  "sql_current_timestamp env w =
     (current_timestamp env (clock_reads w), w\<lparr> clock_reads := Suc (clock_reads w) \<rparr>)"

subsection \<open>The spooler adapter's functions, with their call\<close>

definition submit_print_job ::
  "environment \<Rightarrow> string \<Rightarrow> int \<Rightarrow> bool \<Rightarrow> world \<Rightarrow> (bool \<times> string) \<times> world" where
  "submit_print_job env fpath ncopies dup w =
     (let cmd = lp_command fpath ncopies dup;
          (res, w') = run_command env cmd w
      in (submit_result res, w'))"

definition get_print_queue :: "environment \<Rightarrow> world \<Rightarrow> queue_entry list \<times> world" where
  "get_print_queue env w =
     (let (res, w') = run_command env [''lpstat'', ''-o''] w
      in (queue_of_result res, w'))"

definition cancel_print_job ::
  "environment \<Rightarrow> string \<Rightarrow> world \<Rightarrow> (bool \<times> string) \<times> world" where
  "cancel_print_job env jid w =
     (let (res, w') = run_command env [''cancel'', jid] w
      in (cancel_result jid res, w'))"


subsection \<open>The job store's functions, with the clock\<close>

definition add_print_job_io ::
  "environment \<Rightarrow> string \<Rightarrow> string \<Rightarrow> string \<Rightarrow> string \<Rightarrow> rat \<Rightarrow> int \<Rightarrow> bool \<Rightarrow> world
     \<Rightarrow> nat \<times> world" where
  "add_print_job_io env jid fname oname fpath size_mb ncopies dup w =
     (let (now, w1) = sql_current_timestamp env w;
          (lastrowid, db') = add_print_job now jid fname oname fpath size_mb ncopies dup (store w1)
      in (lastrowid, w1\<lparr> store := db' \<rparr>))"

definition update_job_status_io ::
  "environment \<Rightarrow> string \<Rightarrow> string \<Rightarrow> string option \<Rightarrow> world \<Rightarrow> world" where
  "update_job_status_io env jid new_status err w =
     (if new_status = ''completed''
      then (let (now, w1) = sql_current_timestamp env w
            in w1\<lparr> store := update_job_status now jid new_status err (store w1) \<rparr>)
      else w\<lparr> store := update_job_status (current_timestamp env (clock_reads w))
                          jid new_status err (store w) \<rparr>)"

section \<open>File helpers (utils/file\_helper.py, config.py)\<close>

definition ALLOWED_EXTENSIONS :: "string set" where
  "ALLOWED_EXTENSIONS = {''pdf'', ''txt'', ''jpg'', ''jpeg'', ''png''}"

definition allowed_file :: "string \<Rightarrow> bool" where
  "allowed_file fname \<longleftrightarrow>
     CHR ''.'' \<in> set fname \<and> py_lower (rsplit_dot_last fname) \<in> ALLOWED_EXTENSIONS"

definition mime_map :: "string \<Rightarrow> string option" where
  "mime_map = map_of
     [(''pdf'', ''application/pdf''), (''txt'', ''text/plain''), (''jpg'', ''image/jpeg''),
      (''jpeg'', ''image/jpeg''), (''png'', ''image/png'')]"

text \<open>
  \<open>validate_file_content\<close>: \<open>from_file\<close> raises on a missing file or a failed
  detection, and the \<open>except\<close> clause returns \<open>False\<close>; an extension without an entry
  in \<open>mime_map\<close> returns \<open>False\<close>; otherwise the result is the comparison of the two
  media types.
\<close>

definition validate_file_content :: "environment \<Rightarrow> string \<Rightarrow> string \<Rightarrow> world \<Rightarrow> bool" where
  "validate_file_content env fpath expected_extension w =
     (case disk w fpath of
        None \<Rightarrow> False
      | Some content \<Rightarrow>
          (case magic_from_file env content of
             None \<Rightarrow> False
           | Some file_mime \<Rightarrow>
               (case mime_map (py_lower expected_extension) of
                  None \<Rightarrow> False
                | Some expected_mime \<Rightarrow> file_mime = expected_mime)))"

text \<open>
  \<open>get_safe_filename\<close>: the timestamp, an underscore, and the secured name
  (\<open>os.path.splitext\<close> cuts the name in two parts that are put together again
  unchanged). \<open>os.path.join\<close> for two components. \<open>get_file_size_mb\<close>: the size in
  bytes over \<open>1024 * 1024\<close>, and \<open>0.0\<close> when the file cannot be read.
\<close>

definition get_safe_filename :: "environment \<Rightarrow> string \<Rightarrow> world \<Rightarrow> string \<times> world" where
  "get_safe_filename env fname w =
     (let safe_name = secure_filename env fname;
          timestamp = strftime_now env (clock_reads w)
      in (timestamp @ ''_'' @ safe_name, w\<lparr> clock_reads := Suc (clock_reads w) \<rparr>))"

definition os_path_join :: "string \<Rightarrow> string \<Rightarrow> string" where
  "os_path_join a b =
     (if b \<noteq> [] \<and> hd b = CHR ''/'' then b
      else if a = [] \<or> last a = CHR ''/'' then a @ b
      else a @ ''/'' @ b)"

definition get_file_size_mb :: "string \<Rightarrow> world \<Rightarrow> rat" where
  "get_file_size_mb fpath w =
     (case disk w fpath of
        None \<Rightarrow> 0
      | Some content \<Rightarrow> of_nat (length content) / (1024 * 1024))"

section \<open>Request handlers (app.py)\<close>

text \<open>
  The JSON bodies the handlers return, each paired with the HTTP status:
  \<open>{'success': False, 'error': e}\<close>; the upload summary with one dictionary per file;
  the bodies of a successful cancel and reprint. \<open>Unhandled\<close> is an exception that
  leaves the view function (Flask answers 500).
\<close>

datatype file_result =
    FileSubmitted string string string
  | FileFailed string string

datatype body =
    ErrorBody string
  | UploadBody bool "file_result list"
  | CancelBody string
  | ReprintBody string string
  | Unhandled


text \<open>
  An upload request: the parts of the \<open>files\<close> field (the empty list when the field is
  absent), the \<open>copies\<close> form value as \<open>int(..)\<close> reads it (absent, an integer, or
  text on which \<open>int\<close> raises \<open>ValueError\<close>), and the \<open>duplex\<close> form value.
\<close>

record uploaded_file =
  up_filename :: string
  up_content :: string

datatype copies_field = CopiesAbsent | CopiesInt int | CopiesNotInt


text \<open>
  The body of the loop over the files in \<open>upload_files\<close>, on the results so far and the
  world. The writes to disk, the database and the spooler are total here, so the
  \<open>except\<close> clause of the loop body has no counterpart.
\<close>

definition upload_one ::
  "environment \<Rightarrow> int \<Rightarrow> bool \<Rightarrow> uploaded_file \<Rightarrow> file_result list \<times> world
     \<Rightarrow> file_result list \<times> world" where
  "upload_one env ncopies dup file st =
     (let (results, w) = st;
          original = up_filename file
      in if original = [] then (results, w)
         else if \<not> allowed_file original
         then (results @ [FileFailed original
                 (''File type not allowed. Allowed types: '' @ allowed_listing env)], w)
         else
           (let (safe_name, w1) = get_safe_filename env original w;
                fpath = os_path_join (upload_folder env) safe_name;
                w2 = w1\<lparr> disk := (disk w1)(fpath \<mapsto> up_content file) \<rparr>;
                extension = py_lower (rsplit_dot_last original)
            in if \<not> validate_file_content env fpath extension w2
               then (results @ [FileFailed original ''File content does not match extension''],
                     w2\<lparr> disk := (disk w2)(fpath := None) \<rparr>)
               else
                 (let size_mb = get_file_size_mb fpath w2;
                      ((success, message), w3) = submit_print_job env fpath ncopies dup w2
                  in if success
                     then (let (lastrowid, w4) =
                                 add_print_job_io env message safe_name original fpath size_mb
                                   ncopies dup w3
                           in (results @ [FileSubmitted original message
                                 (''Print job submitted (Job ID: '' @ message @ '')'')], w4))
                     else (results @ [FileFailed original message],
                           w3\<lparr> disk := (disk w3)(fpath := None) \<rparr>))))"

fun upload_loop ::
  "environment \<Rightarrow> int \<Rightarrow> bool \<Rightarrow> uploaded_file list \<Rightarrow> file_result list \<times> world
     \<Rightarrow> file_result list \<times> world" where
  "upload_loop env ncopies dup [] st = st"
| "upload_loop env ncopies dup (file # files) st =
     upload_loop env ncopies dup files (upload_one env ncopies dup file st)"


text \<open>
  \<open>cancel_job\<close> and \<open>reprint_job\<close>. Their \<open>except\<close> clauses (status 500) catch what
  the helpers do not catch themselves; no operation of this model raises there.
\<close>

definition cancel_job :: "environment \<Rightarrow> string \<Rightarrow> world \<Rightarrow> (body \<times> nat) \<times> world" where
  "cancel_job env jid w =
     (let ((success, message), w1) = cancel_print_job env jid w
      in if success
         then ((CancelBody message, 200), update_job_status_io env jid ''cancelled'' None w1)
         else ((ErrorBody message, 400), w1))"

definition reprint_job :: "environment \<Rightarrow> string \<Rightarrow> world \<Rightarrow> (body \<times> nat) \<times> world" where
  "reprint_job env jid w =
     (case get_job_by_id jid (store w) of
        None \<Rightarrow> ((ErrorBody ''Job not found'', 404), w)
      | Some job \<Rightarrow>
          if disk w (filepath job) = None
          then ((ErrorBody ''File no longer available'', 404), w)
          else
            (let ((success, message), w1) =
                   submit_print_job env (filepath job) (copies job) (duplex job) w
             in if success
                then (let (lastrowid, w2) =
                            add_print_job_io env message (filename job) (original_filename job)
                              (filepath job) (file_size_mb job) (copies job) (duplex job) w1
                      in ((ReprintBody message (''Reprint submitted (Job ID: '' @ message @ '')''),
                           200), w2))
                else ((ErrorBody message, 400), w1)))"

section \<open>Concrete data for evaluation\<close>

text \<open>Three rows, two of which carry the same spooler job id.\<close>

definition example_row :: "nat \<Rightarrow> string \<Rightarrow> print_job" where
  "example_row n jid =
     \<lparr> id_col = n, job_id = Some jid, filename = ''20250101_120000_a.pdf'',
       original_filename = ''a.pdf'', filepath = ''/srv/print/20250101_120000_a.pdf'',
       file_size_mb = 1 / 2, copies = 2, duplex = True, status = ''pending'',
       submitted_at = 1000, completed_at = None, error_message = Some ''paper jam'' \<rparr>"

definition example_db :: database where
  "example_db = \<lparr> print_jobs = [example_row 1 ''7'', example_row 2 ''7'', example_row 3 ''8''],
                  sqlite_sequence = 3 \<rparr>"

text \<open>An answer of \<open>lpstat -o\<close>: two jobs and one line with three fields.\<close>

definition example_lpstat_output :: string where
  "example_lpstat_output = ''HP-12 pi 1024 Mon Nov 12
short line here
Office-Printer-13 bob 2048 Mon Nov 12
''"

text \<open>
  An environment and a world: \<open>lpstat\<close> gets the first answer and every other command
  the second; file contents that start with \<open>%PDF\<close> are PDF, all others plain text;
  the file of the rows of the database above is on disk.
\<close>

definition example_env :: "run_result \<Rightarrow> run_result \<Rightarrow> environment" where
  "example_env lpstat_answer answer =
     \<lparr> subprocess_run = (\<lambda>history cmd. if hd cmd = ''lpstat'' then lpstat_answer else answer),
       magic_from_file = (\<lambda>content. if take 4 content = ''%PDF'' then Some ''application/pdf''
                                     else Some ''text/plain''),
       secure_filename = (\<lambda>name. name),
       current_timestamp = (\<lambda>n. 5000 + int n),
       strftime_now = (\<lambda>n. ''20250102_093000''),
       upload_folder = ''/srv/print'',
       allowed_listing = ''pdf, txt, jpg, jpeg, png'' \<rparr>"

definition example_world :: world where
  "example_world =
     \<lparr> store = example_db,
       disk = [''/srv/print/20250101_120000_a.pdf'' \<mapsto> ''%PDF-1.4''],
       spooler_calls = [],
       clock_reads = 0 \<rparr>"

definition scheduler_running :: run_result where
  "scheduler_running = Completed 0 ''scheduler is running'' []"

definition lp_rejected :: run_result where
  "lp_rejected = Completed 1 [] ''lp: Error - no default destination available.''"

definition lp_accepted :: run_result where
  "lp_accepted = Completed 0 ''request id is HP-42 (1 file(s))'' []"


text \<open>An uploaded part named as a PDF whose bytes are plain text.\<close>

definition example_file :: uploaded_file where
  "example_file = \<lparr> up_filename = ''notes.pdf'', up_content = ''plain words'' \<rparr>"

section \<open>Properties of the job store\<close>

lemma sql_update_where_length: "length (sql_update_where cond upd rows) = length rows"
  by (simp add: sql_update_where_def)

lemma sql_update_where_nth:
  "i < length rows \<Longrightarrow>
     sql_update_where cond upd rows ! i = (if cond (rows ! i) then upd (rows ! i) else rows ! i)"
  by (simp add: sql_update_where_def)

lemma sql_update_where_none:
  "\<forall>r \<in> set rows. \<not> cond r \<Longrightarrow> sql_update_where cond upd rows = rows"
  by (induction rows) (simp_all add: sql_update_where_def)




text \<open>
  C8. For every job id, status and optional error message, and every row with that job
  id: \<open>update_job_status\<close> with status \<open>completed\<close> sets the status and stamps
  \<open>completed_at\<close> and leaves \<open>error_message\<close> as it was; with any other status it
  sets \<open>status\<close> and \<open>error_message\<close> together and leaves \<open>completed_at\<close> as it
  was; in both cases every other column of the row keeps its value.
\<close>

theorem update_job_status_fields:
  fixes db :: database and i :: nat and now :: int and jid new_status :: string
    and err :: "string option"
  defines "r \<equiv> print_jobs db ! i"
  defines "r' \<equiv> print_jobs (update_job_status now jid new_status err db) ! i"
  assumes "i < length (print_jobs db)" and "job_id (print_jobs db ! i) = Some jid"
  shows "status r' = new_status
       \<and> (new_status = ''completed'' \<longrightarrow>
            completed_at r' = Some now \<and> error_message r' = error_message r)
       \<and> (new_status \<noteq> ''completed'' \<longrightarrow>
            error_message r' = err \<and> completed_at r' = completed_at r)
       \<and> id_col r' = id_col r \<and> job_id r' = job_id r \<and> filename r' = filename r
       \<and> original_filename r' = original_filename r \<and> filepath r' = filepath r
       \<and> file_size_mb r' = file_size_mb r \<and> copies r' = copies r \<and> duplex r' = duplex r
       \<and> submitted_at r' = submitted_at r"
  using assms by (simp add: update_job_status_def sql_update_where_nth)

theorem update_job_status_fields_witness:
  "status (print_jobs (update_job_status 5000 ''7'' ''completed'' None example_db) ! 0) = ''completed''
   \<and> completed_at (print_jobs (update_job_status 5000 ''7'' ''completed'' None example_db) ! 0) = Some 5000
   \<and> error_message (print_jobs (update_job_status 5000 ''7'' ''completed'' None example_db) ! 0) = Some ''paper jam''
   \<and> status (print_jobs (update_job_status 5000 ''7'' ''cancelled'' None example_db) ! 0) = ''cancelled''
   \<and> error_message (print_jobs (update_job_status 5000 ''7'' ''cancelled'' None example_db) ! 0) = None
   \<and> completed_at (print_jobs (update_job_status 5000 ''7'' ''cancelled'' None example_db) ! 0) = None
   \<and> copies (print_jobs (update_job_status 5000 ''7'' ''cancelled'' None example_db) ! 0) = 2"
  using update_job_status_fields [of 0 example_db "''7''" 5000 "''completed''" None]
        update_job_status_fields [of 0 example_db "''7''" 5000 "''cancelled''" None]
  by (simp add: example_db_def example_row_def)

text \<open>
  C10. \<open>update_job_status\<close> changes exactly the rows whose \<open>job_id\<close> equals the
  given value: every such row gets the new status (all duplicates in the one statement),
  every other row is returned as it was, the number of rows and the rowid counter do not
  change, and when no row matches the database is returned unchanged (the function has
  no error result).
\<close>

theorem update_job_status_rows:
  fixes db :: database and now :: int and jid new_status :: string and err :: "string option"
  defines "db' \<equiv> update_job_status now jid new_status err db"
  shows "length (print_jobs db') = length (print_jobs db)
       \<and> (\<forall>i < length (print_jobs db).
            (job_id (print_jobs db ! i) = Some jid \<longrightarrow> status (print_jobs db' ! i) = new_status)
          \<and> (job_id (print_jobs db ! i) \<noteq> Some jid \<longrightarrow> print_jobs db' ! i = print_jobs db ! i))
       \<and> ((\<forall>r \<in> set (print_jobs db). job_id r \<noteq> Some jid) \<longrightarrow> db' = db)
       \<and> sqlite_sequence db' = sqlite_sequence db"
proof -
  have len: "length (print_jobs db') = length (print_jobs db)"
    by (simp add: db'_def update_job_status_def sql_update_where_length)
  have rows: "\<forall>i < length (print_jobs db).
            (job_id (print_jobs db ! i) = Some jid \<longrightarrow> status (print_jobs db' ! i) = new_status)
          \<and> (job_id (print_jobs db ! i) \<noteq> Some jid \<longrightarrow> print_jobs db' ! i = print_jobs db ! i)"
    by (simp add: db'_def update_job_status_def sql_update_where_nth)
  have none: "(\<forall>r \<in> set (print_jobs db). job_id r \<noteq> Some jid) \<longrightarrow> db' = db"
    by (simp add: db'_def update_job_status_def sql_update_where_none)
  have seq: "sqlite_sequence db' = sqlite_sequence db"
    by (simp add: db'_def update_job_status_def)
  from len rows none seq show ?thesis by blast
qed

theorem update_job_status_rows_witness:
  "status (print_jobs (update_job_status 5000 ''7'' ''failed'' (Some ''offline'') example_db) ! 0) = ''failed''
   \<and> status (print_jobs (update_job_status 5000 ''7'' ''failed'' (Some ''offline'') example_db) ! 1) = ''failed''
   \<and> print_jobs (update_job_status 5000 ''7'' ''failed'' (Some ''offline'') example_db) ! 2 = example_row 3 ''8''
   \<and> update_job_status 5000 ''9'' ''failed'' (Some ''offline'') example_db = example_db"
  using update_job_status_rows [of 5000 "''7''" "''failed''" "Some ''offline''" example_db]
        update_job_status_rows [of 5000 "''9''" "''failed''" "Some ''offline''" example_db]
  by (simp add: example_db_def example_row_def)

section \<open>Properties of the spooler adapter\<close>

lemma below_ten_cases:
  "(d::nat) < 10 \<Longrightarrow>
     d = 0 \<or> d = 1 \<or> d = 2 \<or> d = 3 \<or> d = 4 \<or> d = 5 \<or> d = 6 \<or> d = 7 \<or> d = 8 \<or> d = 9"
  by arith

lemma digit_char_isdigit: "d < 10 \<Longrightarrow> py_isdigit (digit_char d)"
  using below_ten_cases [of d] by (auto simp: digit_char_def py_isdigit_def)

lemma str_nat_digits: "list_all py_isdigit (str_nat n) \<and> str_nat n \<noteq> []"
proof (induction n rule: str_nat.induct)
  case (1 n)
  show ?case
  proof (cases "n < 10")
    case True
    then show ?thesis by (subst str_nat.simps, subst str_nat.simps) (simp add: digit_char_isdigit)
  next
    case False
    then have "list_all py_isdigit (str_nat (n div 10))" using 1 by simp
    moreover have "py_isdigit (digit_char (n mod 10))" by (simp add: digit_char_isdigit)
    ultimately show ?thesis using False
      by (subst str_nat.simps, subst str_nat.simps) simp
  qed
qed

lemma str_int_digits: "0 \<le> i \<Longrightarrow> list_all py_isdigit (str_int i) \<and> str_int i \<noteq> []"
  by (simp add: str_int_def str_nat_digits)

lemma digits_neq_option:
  "list_all py_isdigit s \<Longrightarrow> s \<noteq> ''-o'' \<and> s \<noteq> ''-n''
     \<and> s \<noteq> ''sides=two-sided-long-edge'' \<and> s \<noteq> ''sides=one-sided''"
  by (auto simp: py_isdigit_def)

text \<open>
  C6. For every file path, \<open>copies\<close> and \<open>duplex\<close>, the command that
  \<open>submit_print_job\<close> gives to \<open>subprocess.run\<close> is \<open>lp\<close>, the options, and the
  file path last. The options are \<open>-n\<close> with the decimal text of \<open>copies\<close> exactly
  when \<open>copies > 1\<close>, followed by exactly one \<open>-o\<close> with
  \<open>sides=two-sided-long-edge\<close> exactly when \<open>duplex\<close> is true and \<open>sides=one-sided\<close>
  exactly when it is false: a sides option is in every command.
\<close>

theorem lp_command_options:
  fixes fpath :: string and ncopies :: int and dup :: bool
  defines "cmd \<equiv> lp_command fpath ncopies dup"
  defines "opts \<equiv> butlast (tl (lp_command fpath ncopies dup))"
  shows "hd cmd = ''lp'' \<and> last cmd = fpath
       \<and> opts = (if ncopies > 1 then [''-n'', str_int ncopies] else [])
                @ [''-o'', if dup then ''sides=two-sided-long-edge'' else ''sides=one-sided'']
       \<and> (''-n'' \<in> set opts \<longleftrightarrow> ncopies > 1)
       \<and> count_list opts ''-o'' = 1
       \<and> (''sides=two-sided-long-edge'' \<in> set opts \<longleftrightarrow> dup)
       \<and> (''sides=one-sided'' \<in> set opts \<longleftrightarrow> \<not> dup)
       \<and> (\<forall>env w. spooler_calls (snd (submit_print_job env fpath ncopies dup w))
                     = spooler_calls w @ [cmd])"
proof -
  have shape: "cmd = ''lp'' # ((if ncopies > 1 then [''-n'', str_int ncopies] else [])
                @ [''-o'', if dup then ''sides=two-sided-long-edge'' else ''sides=one-sided''])
                @ [fpath]"
    by (simp add: cmd_def lp_command_def)
  have opts: "opts = (if ncopies > 1 then [''-n'', str_int ncopies] else [])
                @ [''-o'', if dup then ''sides=two-sided-long-edge'' else ''sides=one-sided'']"
    unfolding opts_def cmd_def [symmetric] shape by (simp add: butlast_append)
  have d: "ncopies > 1 \<Longrightarrow> str_int ncopies \<noteq> ''-o'' \<and> str_int ncopies \<noteq> ''-n''
            \<and> str_int ncopies \<noteq> ''sides=two-sided-long-edge''
            \<and> str_int ncopies \<noteq> ''sides=one-sided''"
    using str_int_digits [of ncopies] digits_neq_option [of "str_int ncopies"] by simp
  have hd: "hd cmd = ''lp''" and last: "last cmd = fpath" by (simp_all add: shape)
  have n: "''-n'' \<in> set opts \<longleftrightarrow> ncopies > 1" by (simp add: opts)
  have cnt: "count_list opts ''-o'' = 1" using d by (simp add: opts)
  have two: "''sides=two-sided-long-edge'' \<in> set opts \<longleftrightarrow> dup" using d by (auto simp: opts)
  have one: "''sides=one-sided'' \<in> set opts \<longleftrightarrow> \<not> dup" using d by (auto simp: opts)
  have log: "\<forall>env w. spooler_calls (snd (submit_print_job env fpath ncopies dup w))
                     = spooler_calls w @ [cmd]"
    by (simp add: submit_print_job_def run_command_def cmd_def split_def Let_def)
  from hd last opts n cnt two one log show ?thesis by blast
qed


theorem lp_command_options_witness:
  "lp_command ''/srv/print/a.pdf'' 2 True
     = [''lp'', ''-n'', ''2'', ''-o'', ''sides=two-sided-long-edge'', ''/srv/print/a.pdf'']
   \<and> lp_command ''/srv/print/a.pdf'' 1 False
     = [''lp'', ''-o'', ''sides=one-sided'', ''/srv/print/a.pdf'']
   \<and> butlast (tl (lp_command ''/srv/print/a.pdf'' 10 False))
     = [''-n'', ''10'', ''-o'', ''sides=one-sided'']"
proof -
  have s: "str_int 10 = ''10''" by code_simp
  have a: "lp_command ''/srv/print/a.pdf'' 2 True
     = [''lp'', ''-n'', ''2'', ''-o'', ''sides=two-sided-long-edge'', ''/srv/print/a.pdf'']"
    and b: "lp_command ''/srv/print/a.pdf'' 1 False
     = [''lp'', ''-o'', ''sides=one-sided'', ''/srv/print/a.pdf'']"
    by code_simp+
  from lp_command_options [of "''/srv/print/a.pdf''" 10 False] s
  have c: "butlast (tl (lp_command ''/srv/print/a.pdf'' 10 False))
     = [''-n'', ''10'', ''-o'', ''sides=one-sided'']"
    by simp
  from a b c show ?thesis by blast
qed

















lemma parse_queue_lines_eq:
  "parse_queue_lines ls jobs
     = jobs @ map (\<lambda>l. queue_entry_of_parts (py_split l))
               (filter (\<lambda>l. 5 \<le> length (py_split l)) ls)"
  by (induction ls arbitrary: jobs) (simp_all add: Let_def)

lemma dropWhile_digits_keeps_dash:
  "\<exists>q. dropWhile py_isdigit (p @ CHR ''-'' # ds) = q @ CHR ''-'' # ds"
proof (induction p)
  case Nil
  have "\<not> py_isdigit (CHR ''-'')" by (simp add: py_isdigit_def)
  then show ?case by simp
next
  case (Cons c p)
  show ?case
  proof (cases "py_isdigit c")
    case True
    with Cons show ?thesis by simp
  next
    case False
    then have "dropWhile py_isdigit ((c # p) @ CHR ''-'' # ds) = (c # p) @ CHR ''-'' # ds"
      by simp
    then show ?thesis by blast
  qed
qed

lemma search_job_suffix_complete:
  assumes "ds \<noteq> []" "list_all py_isdigit ds"
  shows "search_job_suffix (p @ CHR ''-'' # ds) = Some ds"
proof (induction p)
  case Nil
  have tw: "takeWhile py_isdigit ds = ds" and dw: "dropWhile py_isdigit ds = []"
    using assms(2) by (simp_all add: list_all_iff)
  show ?case using assms(1) by (simp add: tw dw)
next
  case (Cons c p)
  obtain q where q: "dropWhile py_isdigit (p @ CHR ''-'' # ds) = q @ CHR ''-'' # ds"
    using dropWhile_digits_keeps_dash by blast
  have "q @ CHR ''-'' # ds \<noteq> []" by simp
  moreover have "q @ CHR ''-'' # ds \<noteq> [CHR 0x0A]" using assms(1) by (cases q) simp_all
  ultimately show ?case using Cons q by simp
qed

text \<open>
  C9. For every outcome of the \<open>lpstat -o\<close> call: a timeout, a missing binary, any
  other exception and a non-zero exit code give the empty list, never an error; on exit
  code 0 the result has one entry, in order, for each line of the trimmed output with at
  least five whitespace-separated fields, so a line with fewer fields changes nothing;
  and when the first field ends in \<open>-\<close> and digits, the entry's job id is those digits.
\<close>

theorem get_print_queue_best_effort:
  "queue_of_result TimeoutExpired = [] \<and> queue_of_result FileNotFoundError = []
   \<and> (\<forall>e. queue_of_result (OtherException e) = [])
   \<and> (\<forall>returncode out err. returncode \<noteq> 0 \<longrightarrow>
          queue_of_result (Completed returncode out err) = [])
   \<and> (\<forall>env w. fst (get_print_queue env w)
          = queue_of_result (subprocess_run env (spooler_calls w) [''lpstat'', ''-o'']))
   \<and> (\<forall>out err. queue_of_result (Completed 0 out err)
          = map (\<lambda>l. queue_entry_of_parts (py_split l))
              (filter (\<lambda>l. 5 \<le> length (py_split l)) (split_newline (py_strip out))))
   \<and> (\<forall>ls1 l ls2 jobs. length (py_split l) < 5 \<longrightarrow>
          parse_queue_lines (ls1 @ l # ls2) jobs = parse_queue_lines (ls1 @ ls2) jobs)
   \<and> (\<forall>parts p ds. parts ! 0 = p @ CHR ''-'' # ds \<and> ds \<noteq> [] \<and> list_all py_isdigit ds \<longrightarrow>
          entry_job_id (queue_entry_of_parts parts) = ds
        \<and> entry_full_id (queue_entry_of_parts parts) = parts ! 0)"
proof -
  have failures: "queue_of_result TimeoutExpired = []" "queue_of_result FileNotFoundError = []"
    "\<forall>e. queue_of_result (OtherException e) = []"
    "\<forall>returncode out err. returncode \<noteq> 0 \<longrightarrow> queue_of_result (Completed returncode out err) = []"
    by (simp_all add: queue_of_result_def)
  have call: "\<forall>env w. fst (get_print_queue env w)
          = queue_of_result (subprocess_run env (spooler_calls w) [''lpstat'', ''-o''])"
    by (simp add: get_print_queue_def run_command_def)
  have empty: "py_split [] = []" by (simp add: py_split.simps)
  have listing: "\<forall>out err. queue_of_result (Completed 0 out err)
          = map (\<lambda>l. queue_entry_of_parts (py_split l))
              (filter (\<lambda>l. 5 \<le> length (py_split l)) (split_newline (py_strip out)))"
    by (simp add: queue_of_result_def parse_queue_lines_eq empty)
  have skipped: "\<forall>ls1 l ls2 jobs. length (py_split l) < 5 \<longrightarrow>
          parse_queue_lines (ls1 @ l # ls2) jobs = parse_queue_lines (ls1 @ ls2) jobs"
    by (simp add: parse_queue_lines_eq)
  have suffix: "\<forall>parts p ds. parts ! 0 = p @ CHR ''-'' # ds \<and> ds \<noteq> [] \<and> list_all py_isdigit ds \<longrightarrow>
          entry_job_id (queue_entry_of_parts parts) = ds
        \<and> entry_full_id (queue_entry_of_parts parts) = parts ! 0"
    by (simp add: queue_entry_of_parts_def search_job_suffix_complete)
  from failures call listing skipped suffix show ?thesis by blast
qed

theorem get_print_queue_best_effort_witness:
  "queue_of_result (Completed 1 example_lpstat_output []) = []
   \<and> queue_of_result (Completed 0 example_lpstat_output [])
       = [\<lparr> entry_job_id = ''12'', entry_user = ''pi'', entry_size = ''1024'',
            entry_status = ''pending'', entry_full_id = ''HP-12'' \<rparr>,
          \<lparr> entry_job_id = ''13'', entry_user = ''bob'', entry_size = ''2048'',
            entry_status = ''pending'', entry_full_id = ''Office-Printer-13'' \<rparr>]
   \<and> parse_queue_lines [''HP-12 pi 1024 Mon Nov 12'', ''short line here''] []
       = parse_queue_lines [''HP-12 pi 1024 Mon Nov 12''] []
   \<and> entry_job_id (queue_entry_of_parts [''Office-Printer-13'', ''bob'', ''2048'', ''Mon'', ''Nov''])
       = ''13''"
proof -
  note t = get_print_queue_best_effort
  have a: "queue_of_result (Completed 1 example_lpstat_output []) = []"
    using t by simp
  have b: "queue_of_result (Completed 0 example_lpstat_output [])
       = [\<lparr> entry_job_id = ''12'', entry_user = ''pi'', entry_size = ''1024'',
            entry_status = ''pending'', entry_full_id = ''HP-12'' \<rparr>,
          \<lparr> entry_job_id = ''13'', entry_user = ''bob'', entry_size = ''2048'',
            entry_status = ''pending'', entry_full_id = ''Office-Printer-13'' \<rparr>]"
    by code_simp
  have l: "length (py_split ''short line here'') < 5" by code_simp
  have c: "parse_queue_lines ([''HP-12 pi 1024 Mon Nov 12''] @ ''short line here'' # []) []
       = parse_queue_lines ([''HP-12 pi 1024 Mon Nov 12''] @ []) []"
    using t l by blast
  have d: "entry_job_id (queue_entry_of_parts [''Office-Printer-13'', ''bob'', ''2048'', ''Mon'', ''Nov''])
       = ''13''"
  proof -
    have "[''Office-Printer-13'', ''bob'', ''2048'', ''Mon'', ''Nov''] ! 0
            = ''Office-Printer'' @ CHR ''-'' # ''13'' \<and> ''13'' \<noteq> [] \<and> list_all py_isdigit ''13''"
      by (simp add: py_isdigit_def)
    with t show ?thesis by blast
  qed
  from a b c d show ?thesis by simp
qed

section \<open>Properties of the request handlers\<close>

lemma fold_max_upper: "s \<le> fold max xs s \<and> (\<forall>x \<in> set xs. x \<le> fold max xs (s::nat))"
proof (induction xs arbitrary: s)
  case Nil
  then show ?case by simp
next
  case (Cons a xs)
  have "max a s \<le> fold max xs (max a s)" and "\<forall>x \<in> set xs. x \<le> fold max xs (max a s)"
    using Cons.IH [of "max a s"] by simp_all
  then show ?case by auto
qed

lemma add_print_job_fresh_id:
  "r \<in> set (print_jobs db) \<Longrightarrow>
     id_col r < fst (add_print_job now jid fname oname fpath size_mb ncopies dup db)"
  using fold_max_upper [of "sqlite_sequence db" "map id_col (print_jobs db)"]
  by (auto simp: add_print_job_def Let_def less_Suc_eq_le)

lemma get_job_by_id_Some:
  "get_job_by_id jid db = Some job \<Longrightarrow> job \<in> set (print_jobs db) \<and> job_id job = Some jid"
  by (auto simp: get_job_by_id_def sql_fetchone_where_def find_Some_iff)

text \<open>
  C3. For every job id, \<open>cancel_job\<close> gives the spooler the command \<open>cancel <job id>\<close>.
  When that call returns with exit code 0, the answer is 200 and exactly the rows with
  this job id get the status \<open>cancelled\<close>, all other rows staying as they were. In
  every other case (a non-zero exit code, a timeout, a missing binary, another exception)
  the answer is 400 with an error body and the database and the disk are unchanged: the
  status is written only after a successful cancel.
\<close>

theorem cancel_job_updates_only_on_success:
  fixes env :: environment and jid :: string and w :: world
  defines "res \<equiv> subprocess_run env (spooler_calls w) [''cancel'', jid]"
  defines "out \<equiv> cancel_job env jid w"
  shows "((\<exists>so se. res = Completed 0 so se) \<longrightarrow>
            snd (fst out) = 200
          \<and> length (print_jobs (store (snd out))) = length (print_jobs (store w))
          \<and> (\<forall>i < length (print_jobs (store w)).
               (job_id (print_jobs (store w) ! i) = Some jid \<longrightarrow>
                  status (print_jobs (store (snd out)) ! i) = ''cancelled'')
             \<and> (job_id (print_jobs (store w) ! i) \<noteq> Some jid \<longrightarrow>
                  print_jobs (store (snd out)) ! i = print_jobs (store w) ! i)))
       \<and> ((\<nexists>so se. res = Completed 0 so se) \<longrightarrow>
            snd (fst out) = 400 \<and> (\<exists>message. fst (fst out) = ErrorBody message)
          \<and> store (snd out) = store w \<and> disk (snd out) = disk w)
       \<and> spooler_calls (snd out) = spooler_calls w @ [[''cancel'', jid]]"
proof -
  have ok: "(\<exists>so se. res = Completed 0 so se) \<longrightarrow>
            snd (fst out) = 200
          \<and> length (print_jobs (store (snd out))) = length (print_jobs (store w))
          \<and> (\<forall>i < length (print_jobs (store w)).
               (job_id (print_jobs (store w) ! i) = Some jid \<longrightarrow>
                  status (print_jobs (store (snd out)) ! i) = ''cancelled'')
             \<and> (job_id (print_jobs (store w) ! i) \<noteq> Some jid \<longrightarrow>
                  print_jobs (store (snd out)) ! i = print_jobs (store w) ! i))"
    by (auto simp: out_def res_def cancel_job_def cancel_print_job_def run_command_def
          cancel_result_def update_job_status_io_def update_job_status_def
          sql_update_where_length sql_update_where_nth)
  have rejected: "(\<nexists>so se. res = Completed 0 so se) \<longrightarrow>
            snd (fst out) = 400 \<and> (\<exists>message. fst (fst out) = ErrorBody message)
          \<and> store (snd out) = store w \<and> disk (snd out) = disk w"
    by (cases res)
       (auto simp: out_def res_def cancel_job_def cancel_print_job_def run_command_def
          cancel_result_def)
  have log: "spooler_calls (snd out) = spooler_calls w @ [[''cancel'', jid]]"
    by (cases res)
       (auto simp: out_def res_def cancel_job_def cancel_print_job_def run_command_def
          cancel_result_def update_job_status_io_def)
  from ok rejected log show ?thesis by blast
qed


theorem cancel_job_updates_only_on_success_witness:
  "snd (fst (cancel_job (example_env scheduler_running (Completed 0 [] [])) ''7'' example_world)) = 200
   \<and> status (print_jobs (store (snd (cancel_job (example_env scheduler_running (Completed 0 [] []))
                ''7'' example_world))) ! 0) = ''cancelled''
   \<and> status (print_jobs (store (snd (cancel_job (example_env scheduler_running (Completed 0 [] []))
                ''7'' example_world))) ! 1) = ''cancelled''
   \<and> print_jobs (store (snd (cancel_job (example_env scheduler_running (Completed 0 [] []))
                ''7'' example_world))) ! 2 = example_row 3 ''8''
   \<and> snd (fst (cancel_job (example_env scheduler_running lp_rejected) ''7'' example_world)) = 400
   \<and> store (snd (cancel_job (example_env scheduler_running lp_rejected) ''7'' example_world))
       = example_db"
proof -
  let ?ok = "example_env scheduler_running (Completed 0 [] [])"
  let ?no = "example_env scheduler_running lp_rejected"
  have a: "\<exists>so se. subprocess_run ?ok (spooler_calls example_world) [''cancel'', ''7'']
             = Completed 0 so se"
    by (simp add: example_env_def)
  have b: "\<nexists>so se. subprocess_run ?no (spooler_calls example_world) [''cancel'', ''7'']
             = Completed 0 so se"
    by (simp add: example_env_def lp_rejected_def)
  have rows: "print_jobs (store example_world)
                = [example_row 1 ''7'', example_row 2 ''7'', example_row 3 ''8'']"
    by (simp add: example_world_def example_db_def)
  have st: "store example_world = example_db" by (simp add: example_world_def)
  have ids: "job_id (example_row 1 ''7'') = Some ''7''" "job_id (example_row 2 ''7'') = Some ''7''"
    "job_id (example_row 3 ''8'') \<noteq> Some ''7''"
    by (simp_all add: example_row_def)
  from cancel_job_updates_only_on_success [of ?ok example_world "''7''"] a
  have ok: "snd (fst (cancel_job ?ok ''7'' example_world)) = 200
     \<and> (\<forall>i < 3.
           (job_id ([example_row 1 ''7'', example_row 2 ''7'', example_row 3 ''8''] ! i) = Some ''7'' \<longrightarrow>
              status (print_jobs (store (snd (cancel_job ?ok ''7'' example_world))) ! i) = ''cancelled'')
         \<and> (job_id ([example_row 1 ''7'', example_row 2 ''7'', example_row 3 ''8''] ! i) \<noteq> Some ''7'' \<longrightarrow>
              print_jobs (store (snd (cancel_job ?ok ''7'' example_world))) ! i
                = [example_row 1 ''7'', example_row 2 ''7'', example_row 3 ''8''] ! i))"
    by (simp add: rows)
  from cancel_job_updates_only_on_success [of ?no example_world "''7''"] b
  have no: "snd (fst (cancel_job ?no ''7'' example_world)) = 400
     \<and> store (snd (cancel_job ?no ''7'' example_world)) = example_db"
    by (simp add: st)
  from ok have "status (print_jobs (store (snd (cancel_job ?ok ''7'' example_world))) ! 0) = ''cancelled''"
    using ids(1) by (metis nth_Cons_0 zero_less_numeral)
  moreover from ok have "status (print_jobs (store (snd (cancel_job ?ok ''7'' example_world))) ! 1) = ''cancelled''"
    using ids(2) by (metis One_nat_def nth_Cons_0 nth_Cons_Suc one_less_numeral_iff semiring_norm(77))
  moreover from ok have "print_jobs (store (snd (cancel_job ?ok ''7'' example_world))) ! 2 = example_row 3 ''8''"
    using ids(3) by (simp add: numeral_2_eq_2)
  ultimately show ?thesis using ok no by simp
qed


text \<open>
  C2, as amended. For every job id whose record, as \<open>get_job_by_id\<close> finds it, has its
  file on disk: \<open>reprint_job\<close> submits exactly one \<open>lp\<close> command, built from that
  record's file path, copies and duplex; every record of the database stays as it was, in
  its place, and the disk is unchanged. When the spooler accepts, the answer is 200 and
  one record is appended whose rowid differs from that of every existing record, with the
  new spooler job id, status \<open>pending\<close>, and the file path, names, size, copies and
  duplex of the original. When the spooler does not accept, the answer is 400 and no
  record is inserted.
\<close>

theorem reprint_job_effect:
  fixes env :: environment and jid :: string and w :: world and job :: print_job
  defines "cmd \<equiv> lp_command (filepath job) (copies job) (duplex job)"
  defines "res \<equiv> submit_result (subprocess_run env (spooler_calls w)
                     (lp_command (filepath job) (copies job) (duplex job)))"
  defines "out \<equiv> reprint_job env jid w"
  assumes found: "get_job_by_id jid (store w) = Some job"
      and on_disk: "disk w (filepath job) \<noteq> None"
  shows "spooler_calls (snd out) = spooler_calls w @ [cmd]
       \<and> take (length (print_jobs (store w))) (print_jobs (store (snd out))) = print_jobs (store w)
       \<and> disk (snd out) = disk w
       \<and> (fst res \<longrightarrow>
            fst out = (ReprintBody (snd res) (''Reprint submitted (Job ID: '' @ snd res @ '')''), 200)
          \<and> (\<exists>new. print_jobs (store (snd out)) = print_jobs (store w) @ [new]
                \<and> id_col new \<notin> id_col ` set (print_jobs (store w))
                \<and> id_col new \<noteq> id_col job
                \<and> job_id new = Some (snd res)
                \<and> filepath new = filepath job \<and> copies new = copies job
                \<and> duplex new = duplex job \<and> filename new = filename job
                \<and> original_filename new = original_filename job
                \<and> file_size_mb new = file_size_mb job
                \<and> status new = ''pending'' \<and> completed_at new = None
                \<and> error_message new = None))
       \<and> (\<not> fst res \<longrightarrow> fst out = (ErrorBody (snd res), 400) \<and> store (snd out) = store w)"
proof -
  have mem: "job \<in> set (print_jobs (store w))" using found get_job_by_id_Some by blast
  obtain ok msg where res: "res = (ok, msg)" by (cases res)
  have sub: "submit_print_job env (filepath job) (copies job) (duplex job) w
               = ((ok, msg), w\<lparr> spooler_calls := spooler_calls w @ [cmd] \<rparr>)"
    using res by (simp add: submit_print_job_def run_command_def res_def cmd_def)
  show ?thesis
  proof (cases ok)
    case False
    then have o: "out = ((ErrorBody msg, 400), w\<lparr> spooler_calls := spooler_calls w @ [cmd] \<rparr>)"
      using found on_disk sub by (auto simp: out_def reprint_job_def)
    show ?thesis using False by (simp add: o res)
  next
    case True
    let ?w1 = "w\<lparr> spooler_calls := spooler_calls w @ [cmd] \<rparr>"
    let ?now = "current_timestamp env (clock_reads w)"
    let ?ins = "add_print_job ?now msg (filename job) (original_filename job) (filepath job)
                  (file_size_mb job) (copies job) (duplex job) (store w)"
    let ?new = "\<lparr> id_col = fst ?ins, job_id = Some msg, filename = filename job,
                  original_filename = original_filename job, filepath = filepath job,
                  file_size_mb = file_size_mb job, copies = copies job, duplex = duplex job,
                  status = ''pending'', submitted_at = ?now, completed_at = None,
                  error_message = None \<rparr>"
    have ins: "print_jobs (snd ?ins) = print_jobs (store w) @ [?new]"
      by (simp add: add_print_job_def Let_def)
    have o: "fst out = (ReprintBody msg (''Reprint submitted (Job ID: '' @ msg @ '')''), 200)"
      and st: "store (snd out) = snd ?ins"
      and dk: "disk (snd out) = disk w"
      and lg: "spooler_calls (snd out) = spooler_calls w @ [cmd]"
      using True found on_disk sub
      by (auto simp: out_def reprint_job_def add_print_job_io_def sql_current_timestamp_def
            split_def Let_def)
    have fresh: "\<forall>r \<in> set (print_jobs (store w)). id_col r < fst ?ins"
      using add_print_job_fresh_id by blast
    then have "id_col ?new \<notin> id_col ` set (print_jobs (store w))" by auto
    moreover have "id_col ?new \<noteq> id_col job" using fresh mem by auto
    ultimately have "\<exists>new. print_jobs (store (snd out)) = print_jobs (store w) @ [new]
                \<and> id_col new \<notin> id_col ` set (print_jobs (store w))
                \<and> id_col new \<noteq> id_col job
                \<and> job_id new = Some msg
                \<and> filepath new = filepath job \<and> copies new = copies job
                \<and> duplex new = duplex job \<and> filename new = filename job
                \<and> original_filename new = original_filename job
                \<and> file_size_mb new = file_size_mb job
                \<and> status new = ''pending'' \<and> completed_at new = None
                \<and> error_message new = None"
      using st ins by (intro exI [of _ ?new]) simp
    then show ?thesis using True o dk lg st ins by (simp add: res)
  qed
qed


lemma example_job_found:
  "get_job_by_id ''7'' (store example_world) = Some (example_row 1 ''7'')"
  by (simp add: get_job_by_id_def sql_fetchone_where_def example_world_def example_db_def
        example_row_def)

lemma example_job_on_disk: "disk example_world (filepath (example_row 1 ''7'')) \<noteq> None"
  by (simp add: example_world_def example_row_def)

theorem reprint_job_effect_witness:
  "fst (reprint_job (example_env scheduler_running lp_accepted) ''7'' example_world)
     = (ReprintBody ''42'' ''Reprint submitted (Job ID: 42)'', 200)
   \<and> spooler_calls (snd (reprint_job (example_env scheduler_running lp_accepted) ''7'' example_world))
       = [[''lp'', ''-n'', ''2'', ''-o'', ''sides=two-sided-long-edge'',
           ''/srv/print/20250101_120000_a.pdf'']]
   \<and> take 3 (print_jobs (store (snd (reprint_job (example_env scheduler_running lp_accepted)
                ''7'' example_world))))
       = [example_row 1 ''7'', example_row 2 ''7'', example_row 3 ''8'']
   \<and> (\<exists>new. print_jobs (store (snd (reprint_job (example_env scheduler_running lp_accepted)
                ''7'' example_world)))
              = [example_row 1 ''7'', example_row 2 ''7'', example_row 3 ''8'', new]
          \<and> id_col new \<noteq> 1 \<and> job_id new = Some ''42'' \<and> copies new = 2 \<and> duplex new
          \<and> filepath new = ''/srv/print/20250101_120000_a.pdf'')
   \<and> store (snd (reprint_job (example_env scheduler_running lp_rejected) ''7'' example_world))
       = example_db"
proof -
  let ?ok = "example_env scheduler_running lp_accepted"
  let ?no = "example_env scheduler_running lp_rejected"
  have cmd: "lp_command (filepath (example_row 1 ''7'')) (copies (example_row 1 ''7''))
               (duplex (example_row 1 ''7''))
             = [''lp'', ''-n'', ''2'', ''-o'', ''sides=two-sided-long-edge'',
                ''/srv/print/20250101_120000_a.pdf'']"
    by code_simp
  have ok: "submit_result (subprocess_run ?ok (spooler_calls example_world)
              [''lp'', ''-n'', ''2'', ''-o'', ''sides=two-sided-long-edge'',
               ''/srv/print/20250101_120000_a.pdf'']) = (True, ''42'')"
    by code_simp
  have no: "submit_result (subprocess_run ?no (spooler_calls example_world)
              [''lp'', ''-n'', ''2'', ''-o'', ''sides=two-sided-long-edge'',
               ''/srv/print/20250101_120000_a.pdf''])
            = (False, ''lp: Error - no default destination available.'')"
    by code_simp
  have rows: "print_jobs (store example_world)
                = [example_row 1 ''7'', example_row 2 ''7'', example_row 3 ''8'']"
    and st: "store example_world = example_db"
    and sc: "spooler_calls example_world = []"
    by (simp_all add: example_world_def example_db_def)
  have fields: "id_col (example_row 1 ''7'') = 1" "copies (example_row 1 ''7'') = 2"
    "duplex (example_row 1 ''7'')"
    "filepath (example_row 1 ''7'') = ''/srv/print/20250101_120000_a.pdf''"
    by (simp_all add: example_row_def)
  from reprint_job_effect [OF example_job_found example_job_on_disk, of ?ok]
  have a: "fst (reprint_job ?ok ''7'' example_world)
             = (ReprintBody ''42'' ''Reprint submitted (Job ID: 42)'', 200)"
    and b: "spooler_calls (snd (reprint_job ?ok ''7'' example_world))
             = [[''lp'', ''-n'', ''2'', ''-o'', ''sides=two-sided-long-edge'',
                 ''/srv/print/20250101_120000_a.pdf'']]"
    and c: "take 3 (print_jobs (store (snd (reprint_job ?ok ''7'' example_world))))
             = [example_row 1 ''7'', example_row 2 ''7'', example_row 3 ''8'']"
    and d: "\<exists>new. print_jobs (store (snd (reprint_job ?ok ''7'' example_world)))
              = [example_row 1 ''7'', example_row 2 ''7'', example_row 3 ''8'', new]
          \<and> id_col new \<noteq> 1 \<and> job_id new = Some ''42'' \<and> copies new = 2 \<and> duplex new
          \<and> filepath new = ''/srv/print/20250101_120000_a.pdf''"
    unfolding cmd ok by (auto simp: rows sc example_row_def)
  from reprint_job_effect [OF example_job_found example_job_on_disk, of ?no]
  have e: "store (snd (reprint_job ?no ''7'' example_world)) = example_db"
    unfolding cmd no by (simp add: st)
  from a b c d e show ?thesis by blast
qed

text \<open>
  The claim C2 as stated fails where the spooler rejects the resubmission: the record is
  stored and its file is on disk, and the flow answers 400 and inserts nothing.
\<close>

theorem reprint_job_rejected_counterexample:
  "get_job_by_id ''7'' (store example_world) = Some (example_row 1 ''7'')
   \<and> disk example_world (filepath (example_row 1 ''7'')) = Some ''%PDF-1.4''
   \<and> fst (reprint_job (example_env scheduler_running lp_rejected) ''7'' example_world)
       = (ErrorBody ''lp: Error - no default destination available.'', 400)
   \<and> print_jobs (store (snd (reprint_job (example_env scheduler_running lp_rejected)
        ''7'' example_world)))
       = [example_row 1 ''7'', example_row 2 ''7'', example_row 3 ''8'']"
  by code_simp






lemma lower_char_idem: "lower_char (lower_char c) = lower_char c"
  by (simp add: lower_char_def)

lemma py_lower_idem: "py_lower (py_lower s) = py_lower s"
  by (simp add: py_lower_def lower_char_idem)

lemma mime_map_allowed: "mime_map e = Some m \<Longrightarrow> e \<in> ALLOWED_EXTENSIONS"
  by (simp add: mime_map_def ALLOWED_EXTENSIONS_def split: if_splits)

lemma upload_loop_append:
  "upload_loop env ncopies dup (xs @ ys) st
     = upload_loop env ncopies dup ys (upload_loop env ncopies dup xs st)"
  by (induction xs arbitrary: st) simp_all

lemma validate_file_content_iff:
  "validate_file_content env p e w \<longleftrightarrow>
     (\<exists>content m. disk w p = Some content \<and> magic_from_file env content = Some m
        \<and> mime_map (py_lower e) = Some m)"
  by (auto simp: validate_file_content_def split: option.splits)

text \<open>
  C5. For every uploaded part whose name has an extension with an expected media type,
  and whose content libmagic reports as another type or not at all: the loop body of
  \<open>upload_files\<close>, from any results and any world, appends the error
  \<open>File content does not match extension\<close> for this part; afterwards the path it
  wrote to holds no file and every other path is as before; no command is given to the
  spooler and the database is unchanged. The loop runs this body for every part of the
  batch, on the state the parts before it left. The validator returns true exactly when
  the file can be read, its type is detected, and the detected type equals the one
  expected for the extension: unknown extensions and detection failures give false.
\<close>

theorem upload_one_content_mismatch:
  fixes env :: environment and ncopies :: int and dup :: bool and item :: uploaded_file
    and results :: "file_result list" and w :: world and expected :: string
  defines "fpath \<equiv> os_path_join (upload_folder env)
                     (fst (get_safe_filename env (up_filename item) w))"
  defines "out \<equiv> upload_one env ncopies dup item (results, w)"
  assumes dotted: "CHR ''.'' \<in> set (up_filename item)"
      and ext: "mime_map (py_lower (rsplit_dot_last (up_filename item))) = Some expected"
      and sniff: "magic_from_file env (up_content item) \<noteq> Some expected"
  shows "fst out = results @ [FileFailed (up_filename item) ''File content does not match extension'']
       \<and> disk (snd out) fpath = None
       \<and> (\<forall>p. p \<noteq> fpath \<longrightarrow> disk (snd out) p = disk w p)
       \<and> spooler_calls (snd out) = spooler_calls w
       \<and> store (snd out) = store w
       \<and> (\<forall>before after st.
             upload_loop env ncopies dup (before @ item # after) st
               = upload_loop env ncopies dup after
                   (upload_one env ncopies dup item (upload_loop env ncopies dup before st)))
       \<and> (\<forall>env' p e w'. validate_file_content env' p e w' \<longleftrightarrow>
             (\<exists>content m. disk w' p = Some content \<and> magic_from_file env' content = Some m
                \<and> mime_map (py_lower e) = Some m))"
proof -
  let ?name = "up_filename item"
  let ?ext = "py_lower (rsplit_dot_last ?name)"
  let ?w1 = "w\<lparr> clock_reads := Suc (clock_reads w) \<rparr>"
  let ?w2 = "?w1\<lparr> disk := (disk ?w1)(fpath \<mapsto> up_content item) \<rparr>"
  have ne: "?name \<noteq> []" using dotted by auto
  have allowed: "allowed_file ?name"
    using dotted mime_map_allowed [OF ext] by (simp add: allowed_file_def)
  have safe: "snd (get_safe_filename env ?name w) = ?w1"
    by (simp add: get_safe_filename_def Let_def)
  have invalid: "\<not> validate_file_content env fpath ?ext ?w2"
    using ext sniff by (auto simp: validate_file_content_iff py_lower_idem)
  have o: "out = (results @ [FileFailed ?name ''File content does not match extension''],
                  ?w2\<lparr> disk := (disk ?w2)(fpath := None) \<rparr>)"
    unfolding out_def upload_one_def
    using ne allowed invalid
    by (simp add: Let_def split_def fpath_def safe)
  have loop: "\<forall>before after st.
             upload_loop env ncopies dup (before @ item # after) st
               = upload_loop env ncopies dup after
                   (upload_one env ncopies dup item (upload_loop env ncopies dup before st))"
    by (simp add: upload_loop_append)
  have validator: "\<forall>env' p e w'. validate_file_content env' p e w' \<longleftrightarrow>
             (\<exists>content m. disk w' p = Some content \<and> magic_from_file env' content = Some m
                \<and> mime_map (py_lower e) = Some m)"
    using validate_file_content_iff by blast
  from o loop validator show ?thesis by simp
qed

theorem upload_one_content_mismatch_witness:
  "fst (upload_one (example_env scheduler_running lp_accepted) 2 True example_file
         ([], example_world))
     = [FileFailed ''notes.pdf'' ''File content does not match extension'']
   \<and> disk (snd (upload_one (example_env scheduler_running lp_accepted) 2 True example_file
         ([], example_world))) ''/srv/print/20250102_093000_notes.pdf'' = None
   \<and> spooler_calls (snd (upload_one (example_env scheduler_running lp_accepted) 2 True
         example_file ([], example_world))) = []
   \<and> store (snd (upload_one (example_env scheduler_running lp_accepted) 2 True example_file
         ([], example_world))) = example_db
   \<and> \<not> validate_file_content (example_env scheduler_running lp_accepted)
         ''/srv/print/20250101_120000_a.pdf'' ''exe'' example_world
   \<and> validate_file_content (example_env scheduler_running lp_accepted)
         ''/srv/print/20250101_120000_a.pdf'' ''PDF'' example_world"
proof -
  let ?env = "example_env scheduler_running lp_accepted"
  have dotted: "CHR ''.'' \<in> set (up_filename example_file)"
    by (simp add: example_file_def)
  have ext: "mime_map (py_lower (rsplit_dot_last (up_filename example_file)))
               = Some ''application/pdf''"
    by code_simp
  have sniff: "magic_from_file ?env (up_content example_file) \<noteq> Some ''application/pdf''"
    by (simp add: example_env_def example_file_def)
  have path: "os_path_join (upload_folder ?env)
                (fst (get_safe_filename ?env (up_filename example_file) example_world))
              = ''/srv/print/20250102_093000_notes.pdf''"
    by code_simp
  have name: "up_filename example_file = ''notes.pdf''" by (simp add: example_file_def)
  have unknown: "mime_map (py_lower ''exe'') = None" by code_simp
  have known: "mime_map (py_lower ''PDF'') = Some ''application/pdf''" by code_simp
  have pdf: "disk example_world ''/srv/print/20250101_120000_a.pdf'' = Some ''%PDF-1.4''"
    "magic_from_file ?env ''%PDF-1.4'' = Some ''application/pdf''"
    by (simp_all add: example_world_def example_env_def)
  note t = upload_one_content_mismatch [OF dotted ext sniff, of 2 True "[]" example_world]
  have a: "fst (upload_one ?env 2 True example_file ([], example_world))
     = [FileFailed ''notes.pdf'' ''File content does not match extension'']"
    using t name by simp
  have b: "disk (snd (upload_one ?env 2 True example_file ([], example_world)))
             ''/srv/print/20250102_093000_notes.pdf'' = None"
    using t path by simp
  have c: "spooler_calls (snd (upload_one ?env 2 True example_file ([], example_world))) = []"
    "store (snd (upload_one ?env 2 True example_file ([], example_world))) = example_db"
    using t by (simp_all add: example_world_def)
  have d: "\<not> validate_file_content ?env ''/srv/print/20250101_120000_a.pdf'' ''exe'' example_world"
    using t unknown by simp
  have e: "validate_file_content ?env ''/srv/print/20250101_120000_a.pdf'' ''PDF'' example_world"
    using t known pdf by simp
  from a b c d e show ?thesis by blast
qed

end
